theory Spec2Isabelle
  imports Main
begin

section \<open>The Sudoku board of \<^verbatim>\<open>src/sudoku/sudoku.py\<close>\<close>

text \<open>
  The class \<^verbatim>\<open>Puzzle\<close> keeps the grid \<^verbatim>\<open>self.board\<close> (a list of row lists) and three
  dictionaries \<^verbatim>\<open>self.rows\<close>, \<^verbatim>\<open>self.columns\<close>, \<^verbatim>\<open>self.boxes\<close> from the indices 0..8
  to lists. Python lists are mutable objects held by reference: \<^verbatim>\<open>get_row\<close> returns
  \<^verbatim>\<open>self.board[index]\<close> itself, so \<^verbatim>\<open>self.rows[i]\<close> is the same object as
  \<^verbatim>\<open>self.board[i]\<close>, while \<^verbatim>\<open>get_column\<close> and \<^verbatim>\<open>get_box\<close> build new lists. What
  \<^verbatim>\<open>update\<close> does to the grid depends on that sharing, so the model has an explicit
  store of list objects and the fields hold references into it.
\<close>

subsection \<open>Errors, the store, Python indexing\<close>

text \<open>
  The three exceptions of \<^verbatim>\<open>exceptions.py\<close>, and the two built-in ones that indexing a
  list or a dictionary raises.
\<close>

datatype error = InvalidValue | FixedValue | ConflictValue | IndexError | KeyError

type_synonym ref = nat

record puzzle =
  heap :: "ref \<Rightarrow> int list"
  fresh :: ref
  board :: "ref list"
  rows :: "int \<rightharpoonup> ref"
  columns :: "int \<rightharpoonup> ref"
  boxes :: "int \<rightharpoonup> ref"
  mask :: "bool list list"

text \<open>
  \<open>heap s a\<close> is the content of the list object \<open>a\<close>; \<open>fresh s\<close> is the next unused
  reference. Indices are Python integers: a negative index counts from the end of a
  list, an index out of range raises \<^verbatim>\<open>IndexError\<close>, a missing key \<^verbatim>\<open>KeyError\<close>.
\<close>

definition py_index :: "nat \<Rightarrow> int \<Rightarrow> error + nat" where
  "py_index n i =
     (let j = (if i < 0 then int n + i else i)
      in if 0 \<le> j \<and> j < int n then Inr (nat j) else Inl IndexError)"

definition getitem :: "'a list \<Rightarrow> int \<Rightarrow> error + 'a" where
  "getitem xs i = (case py_index (length xs) i of Inl e \<Rightarrow> Inl e | Inr k \<Rightarrow> Inr (xs ! k))"

definition setitem :: "'a list \<Rightarrow> int \<Rightarrow> 'a \<Rightarrow> error + 'a list" where
  "setitem xs i v =
     (case py_index (length xs) i of Inl e \<Rightarrow> Inl e | Inr k \<Rightarrow> Inr (xs[k := v]))"

definition dict_get :: "(int \<rightharpoonup> 'v) \<Rightarrow> int \<Rightarrow> error + 'v" where
  "dict_get d k = (case d k of None \<Rightarrow> Inl KeyError | Some v \<Rightarrow> Inr v)"

text \<open>\<^verbatim>\<open>xs[lo:hi]\<close> for \<open>0 \<le> lo \<le> hi\<close>, the only slices the program takes; a slice never raises.\<close>

definition slice :: "'a list \<Rightarrow> int \<Rightarrow> int \<Rightarrow> 'a list" where
  "slice xs lo hi = take (nat (hi - lo)) (drop (nat lo) xs)"

text \<open>A comprehension or loop whose body may raise: the first error ends it.\<close>

fun collect :: "(error + 'a) list \<Rightarrow> error + 'a list" where
  "collect [] = Inr []"
| "collect (x # xs) =
     (case x of
        Inl e \<Rightarrow> Inl e
      | Inr v \<Rightarrow> (case collect xs of Inl e \<Rightarrow> Inl e | Inr vs \<Rightarrow> Inr (v # vs)))"

definition range9 :: "int list" where
  "range9 = [0, 1, 2, 3, 4, 5, 6, 7, 8]"

subsection \<open>Reading the grid\<close>

definition get_row :: "puzzle \<Rightarrow> int \<Rightarrow> error + ref" where
  "get_row s index = getitem (board s) index"

definition get_column :: "puzzle \<Rightarrow> int \<Rightarrow> error + int list" where
  "get_column s index =
     collect (map (\<lambda>i. case getitem (board s) i of
                          Inl e \<Rightarrow> Inl e
                        | Inr a \<Rightarrow> getitem (heap s a) index) range9)"

definition get_boxIndex :: "int \<Rightarrow> int \<Rightarrow> int" where
  "get_boxIndex r c = c div 3 + (r div 3 * 3)"

definition get_box :: "puzzle \<Rightarrow> int \<Rightarrow> error + int list" where
  "get_box s index =
     (let row = index div 3 * 3;
          column = index mod 3 * 3
      in case collect (map (\<lambda>i. case getitem (board s) (row + i) of
                                   Inl e \<Rightarrow> Inl e
                                 | Inr a \<Rightarrow> Inr (slice (heap s a) column (column + 3)))
                         [0, 1, 2]) of
           Inl e \<Rightarrow> Inl e
         | Inr parts \<Rightarrow> Inr (concat parts))"

definition get_mask :: "puzzle \<Rightarrow> bool list list" where
  "get_mask s = map (\<lambda>a. map (\<lambda>val. val = 0) (heap s a)) (board s)"

subsection \<open>The constructor\<close>

text \<open>
  \<^verbatim>\<open>makeDict(func)\<close> stores \<^verbatim>\<open>func(i)\<close> under the key \<open>i\<close> for \<open>i\<close> in \<^verbatim>\<open>range(9)\<close>.
  With \<^verbatim>\<open>get_row\<close> the value stored is a reference to an existing row; with
  \<^verbatim>\<open>get_column\<close> and \<^verbatim>\<open>get_box\<close> it is a list the call has just built, which the
  model places in the store at a fresh reference.
\<close>

definition alloc :: "puzzle \<Rightarrow> int list \<Rightarrow> ref \<times> puzzle" where
  "alloc s xs = (fresh s, s\<lparr>heap := (heap s)(fresh s := xs), fresh := Suc (fresh s)\<rparr>)"

fun makeDict_ref :: "(int \<Rightarrow> error + ref) \<Rightarrow> int list \<Rightarrow> (int \<rightharpoonup> ref) \<Rightarrow> error + (int \<rightharpoonup> ref)"
  where
  "makeDict_ref func [] d = Inr d"
| "makeDict_ref func (i # is) d =
     (case func i of Inl e \<Rightarrow> Inl e | Inr a \<Rightarrow> makeDict_ref func is (d(i \<mapsto> a)))"

fun makeDict_new ::
  "(puzzle \<Rightarrow> int \<Rightarrow> error + int list) \<Rightarrow> int list \<Rightarrow> (int \<rightharpoonup> ref) \<Rightarrow> puzzle \<Rightarrow>
     error + (int \<rightharpoonup> ref) \<times> puzzle"
  where
  "makeDict_new func [] d s = Inr (d, s)"
| "makeDict_new func (i # is) d s =
     (case func s i of
        Inl e \<Rightarrow> Inl e
      | Inr xs \<Rightarrow> (case alloc s xs of (a, s') \<Rightarrow> makeDict_new func is (d(i \<mapsto> a)) s'))"

text \<open>
  \<^verbatim>\<open>json.load\<close> yields the grid as a list of row lists: the rows become the objects
  \<open>0, 1, \<dots>\<close> of the store and \<^verbatim>\<open>self.board\<close> the list of their references.
\<close>

definition load :: "int list list \<Rightarrow> puzzle" where
  "load g =
     \<lparr>heap = (\<lambda>a. if a < length g then g ! a else []),
      fresh = length g,
      board = [0..<length g],
      rows = Map.empty, columns = Map.empty, boxes = Map.empty,
      mask = []\<rparr>"

definition init :: "int list list \<Rightarrow> error + puzzle" where
  "init g =
     (let s0 = load g in
      case makeDict_ref (get_row s0) range9 Map.empty of
        Inl e \<Rightarrow> Inl e
      | Inr rs \<Rightarrow>
         (let s1 = s0\<lparr>rows := rs\<rparr> in
          case makeDict_new get_column range9 Map.empty s1 of
            Inl e \<Rightarrow> Inl e
          | Inr (cs, s2) \<Rightarrow>
             (let s3 = s2\<lparr>columns := cs\<rparr> in
              case makeDict_new get_box range9 Map.empty s3 of
                Inl e \<Rightarrow> Inl e
              | Inr (bs, s4) \<Rightarrow>
                 (let s5 = s4\<lparr>boxes := bs\<rparr>
                  in Inr (s5\<lparr>mask := get_mask s5\<rparr>)))))"

subsection \<open>\<^verbatim>\<open>is_valid\<close>\<close>

definition is_valid :: "puzzle \<Rightarrow> int \<Rightarrow> int \<Rightarrow> error + bool" where
  "is_valid s row_index column_index =
     (let box_index = get_boxIndex row_index column_index in
      case dict_get (rows s) row_index of
        Inl e \<Rightarrow> Inl e
      | Inr ra \<Rightarrow>
         (let row = filter (\<lambda>val. val \<noteq> 0) (heap s ra) in
          case dict_get (columns s) column_index of
            Inl e \<Rightarrow> Inl e
          | Inr ca \<Rightarrow>
             (let column = filter (\<lambda>val. val \<noteq> 0) (heap s ca) in
              case dict_get (boxes s) box_index of
                Inl e \<Rightarrow> Inl e
              | Inr ba \<Rightarrow>
                 (let box = filter (\<lambda>val. val \<noteq> 0) (heap s ba) in
                  if length row \<noteq> card (set row) then Inr False
                  else if length column \<noteq> card (set column) then Inr False
                  else if length box \<noteq> card (set box) then Inr False
                  else Inr True))))"

subsection \<open>\<^verbatim>\<open>update\<close>\<close>

text \<open>
  \<^verbatim>\<open>update\<close> reads and writes the object and may raise at every step; what it has written
  before an exception stays written. A step is a function from the state to a result
  and the state after it.
\<close>

type_synonym 'a step = "puzzle \<Rightarrow> (error + 'a) \<times> puzzle"

definition raise :: "error \<Rightarrow> 'a step" where
  "raise e = (\<lambda>s. (Inl e, s))"

definition and_then :: "'a step \<Rightarrow> ('a \<Rightarrow> 'b step) \<Rightarrow> 'b step" where
  "and_then m f = (\<lambda>s. case m s of (Inl e, s') \<Rightarrow> (Inl e, s') | (Inr x, s') \<Rightarrow> f x s')"

text \<open>\<^verbatim>\<open>self.mask[r][c]\<close> and \<^verbatim>\<open>self.board[r][c]\<close>.\<close>

definition read_mask :: "int \<Rightarrow> int \<Rightarrow> bool step" where
  "read_mask r c =
     (\<lambda>s. (case getitem (mask s) r of Inl e \<Rightarrow> Inl e | Inr m \<Rightarrow> getitem m c, s))"

definition read_board :: "int \<Rightarrow> int \<Rightarrow> int step" where
  "read_board r c =
     (\<lambda>s. (case getitem (board s) r of Inl e \<Rightarrow> Inl e | Inr a \<Rightarrow> getitem (heap s a) c, s))"

text \<open>\<^verbatim>\<open>self.board[r][c] = v\<close>: the row object \<^verbatim>\<open>self.board[r]\<close> is changed in place.\<close>

definition write_board :: "int \<Rightarrow> int \<Rightarrow> int \<Rightarrow> unit step" where
  "write_board r c v =
     (\<lambda>s. case getitem (board s) r of
            Inl e \<Rightarrow> (Inl e, s)
          | Inr a \<Rightarrow>
             (case setitem (heap s a) c v of
                Inl e \<Rightarrow> (Inl e, s)
              | Inr xs \<Rightarrow> (Inr (), s\<lparr>heap := (heap s)(a := xs)\<rparr>)))"

text \<open>
  \<^verbatim>\<open>self.rows[k][i] = v\<close> (and the same for \<^verbatim>\<open>self.columns\<close>, \<^verbatim>\<open>self.boxes\<close>): the list
  object that the dictionary holds under \<open>k\<close> is changed in place.
\<close>

definition write_view :: "(puzzle \<Rightarrow> int \<rightharpoonup> ref) \<Rightarrow> int \<Rightarrow> int \<Rightarrow> int \<Rightarrow> unit step" where
  "write_view view k i v =
     (\<lambda>s. case dict_get (view s) k of
            Inl e \<Rightarrow> (Inl e, s)
          | Inr a \<Rightarrow>
             (case setitem (heap s a) i v of
                Inl e \<Rightarrow> (Inl e, s)
              | Inr xs \<Rightarrow> (Inr (), s\<lparr>heap := (heap s)(a := xs)\<rparr>)))"

definition update :: "int \<Rightarrow> int \<Rightarrow> int \<Rightarrow> unit step" where
  "update r c val =
     (if val \<notin> set [0, 1, 2, 3, 4, 5, 6, 7, 8, 9] then raise InvalidValue
      else
        and_then (read_mask r c) (\<lambda>m.
        if m = False then raise FixedValue
        else
          and_then (read_board r c) (\<lambda>prev.
          let box = c mod 3 + (r mod 3 * 3);
              b = get_boxIndex r c
          in
            and_then (write_view rows r c val) (\<lambda>_.
            and_then (write_view columns c r val) (\<lambda>_.
            and_then (write_view boxes b box val) (\<lambda>_.
            and_then (\<lambda>s. (is_valid s r c, s)) (\<lambda>ok.
            if ok then write_board r c val
            else
              and_then (write_view rows r c prev) (\<lambda>_.
              and_then (write_view columns c r prev) (\<lambda>_.
              and_then (write_view boxes box b prev) (\<lambda>_.
              raise ConflictValue))))))))))"

text \<open>
  A caller that catches every error and goes on (the three errors are recoverable):
  the state after a sequence of calls \<^verbatim>\<open>update(r, c, val)\<close>.
\<close>

fun run :: "puzzle \<Rightarrow> (int \<times> int \<times> int) list \<Rightarrow> puzzle" where
  "run s [] = s"
| "run s ((r, c, val) # calls) = run (snd (update r c val s)) calls"

text \<open>\<^verbatim>\<open>is_solved\<close>: no row of the grid holds a zero.\<close>

definition is_solved :: "puzzle \<Rightarrow> bool" where
  "is_solved s = list_all (\<lambda>a. 0 \<notin> set (heap s a)) (board s)"

subsection \<open>What the claims speak of\<close>

text \<open>
  The grid as a value, and the three views as values (the lists that the dictionaries
  hold for the keys 0..8).
\<close>

definition grid :: "puzzle \<Rightarrow> int list list" where
  "grid s = map (heap s) (board s)"

definition view_lists :: "puzzle \<Rightarrow> (int \<rightharpoonup> ref) \<Rightarrow> (error + int list) list" where
  "view_lists s d =
     map (\<lambda>i. case dict_get d i of Inl e \<Rightarrow> Inl e | Inr a \<Rightarrow> Inr (heap s a)) range9"

text \<open>A unit is legal when its non-zero values are pairwise distinct.\<close>

definition unit_ok :: "int list \<Rightarrow> bool" where
  "unit_ok xs = distinct (filter (\<lambda>val. val \<noteq> 0) xs)"

definition unit_ok_res :: "error + int list \<Rightarrow> bool" where
  "unit_ok_res x = (case x of Inl e \<Rightarrow> False | Inr xs \<Rightarrow> unit_ok xs)"

text \<open>The grid is legal: each of its rows, columns and boxes is.\<close>

definition legal :: "puzzle \<Rightarrow> bool" where
  "legal s =
     list_all (\<lambda>i. unit_ok_res (getitem (grid s) i) \<and> unit_ok_res (get_column s i) \<and>
                   unit_ok_res (get_box s i)) range9"

text \<open>
  The views agree with the grid: for each index, the list a dictionary holds is the
  row, column or box that the grid has there.
\<close>

definition synced :: "puzzle \<Rightarrow> bool" where
  "synced s =
     (view_lists s (rows s) = map (\<lambda>i. getitem (grid s) i) range9 \<and>
      view_lists s (columns s) = map (get_column s) range9 \<and>
      view_lists s (boxes s) = map (get_box s) range9)"

text \<open>
  The layout the constructor builds from a 9x9 grid: the rows of the grid are the
  objects 0..8 and \<^verbatim>\<open>self.rows\<close> refers to the same objects, the columns are the
  objects 9..17, the boxes the objects 18..26, every list has nine entries, and the mask
  is 9x9. \<^verbatim>\<open>update\<close> never changes it.
\<close>

definition layout :: "puzzle \<Rightarrow> bool" where
  "layout s =
     (board s = [0..<9] \<and>
      list_all (\<lambda>i. rows s (int i) = Some i \<and> columns s (int i) = Some (9 + i) \<and>
                    boxes s (int i) = Some (18 + i)) [0..<9] \<and>
      list_all (\<lambda>a. length (heap s a) = 9) [0..<27] \<and>
      length (mask s) = 9 \<and> list_all (\<lambda>m. length m = 9) (mask s))"

definition grid9 :: "int list list \<Rightarrow> bool" where
  "grid9 g = (length g = 9 \<and> list_all (\<lambda>row. length row = 9) g)"

subsection \<open>Notions used in the proofs\<close>

text \<open>
  One write \<^verbatim>\<open>lst[k] = v\<close> into the list object \<open>a\<close>; the three writes \<^verbatim>\<open>update\<close> makes
  before it calls \<^verbatim>\<open>is_valid\<close>, and the three it makes before it raises
  \<^verbatim>\<open>ConflictValue\<close>, as they come out in a state with the constructor's layout; what
  \<^verbatim>\<open>is_valid\<close> returns there; and the column and the box that the grid has at an index.
\<close>

definition poke :: "puzzle \<Rightarrow> ref \<Rightarrow> nat \<Rightarrow> int \<Rightarrow> puzzle" where
  "poke s a k v = s\<lparr>heap := (heap s)(a := (heap s a)[k := v])\<rparr>"

definition valid3 :: "puzzle \<Rightarrow> int \<Rightarrow> int \<Rightarrow> bool" where
  "valid3 s r c =
     (unit_ok (heap s (nat r)) \<and> unit_ok (heap s (9 + nat c)) \<and>
      unit_ok (heap s (18 + nat (get_boxIndex r c))))"

definition forward :: "puzzle \<Rightarrow> int \<Rightarrow> int \<Rightarrow> int \<Rightarrow> puzzle" where
  "forward s r c val =
     poke (poke (poke s (nat r) (nat c) val) (9 + nat c) (nat r) val)
       (18 + nat (get_boxIndex r c)) (nat (c mod 3 + (r mod 3 * 3))) val"

definition rollback :: "puzzle \<Rightarrow> int \<Rightarrow> int \<Rightarrow> int \<Rightarrow> puzzle" where
  "rollback s r c prev =
     poke (poke (poke s (nat r) (nat c) prev) (9 + nat c) (nat r) prev)
       (18 + nat (c mod 3 + (r mod 3 * 3))) (nat (get_boxIndex r c)) prev"

definition rows9 :: "puzzle \<Rightarrow> bool" where
  "rows9 s = (board s = [0..<9] \<and> (\<forall>k<9. length (heap s k) = 9))"

definition col_of :: "puzzle \<Rightarrow> nat \<Rightarrow> int list" where
  "col_of s c = map (\<lambda>k. heap s k ! c) [0..<9]"

definition box_of :: "puzzle \<Rightarrow> nat \<Rightarrow> int list" where
  "box_of s b = map (\<lambda>k. heap s (b div 3 * 3 + k div 3) ! (b mod 3 * 3 + k mod 3)) [0..<9]"

definition rows_dict :: "int \<rightharpoonup> ref" where
  "rows_dict = [0 \<mapsto> 0, 1 \<mapsto> 1, 2 \<mapsto> 2, 3 \<mapsto> 3, 4 \<mapsto> 4, 5 \<mapsto> 5, 6 \<mapsto> 6, 7 \<mapsto> 7, 8 \<mapsto> 8]"

definition columns_dict :: "int \<rightharpoonup> ref" where
  "columns_dict = [0 \<mapsto> 9, 1 \<mapsto> 10, 2 \<mapsto> 11, 3 \<mapsto> 12, 4 \<mapsto> 13, 5 \<mapsto> 14, 6 \<mapsto> 15, 7 \<mapsto> 16, 8 \<mapsto> 17]"

definition boxes_dict :: "int \<rightharpoonup> ref" where
  "boxes_dict = [0 \<mapsto> 18, 1 \<mapsto> 19, 2 \<mapsto> 20, 3 \<mapsto> 21, 4 \<mapsto> 22, 5 \<mapsto> 23, 6 \<mapsto> 24, 7 \<mapsto> 25, 8 \<mapsto> 26]"

definition columns_built :: "puzzle \<Rightarrow> puzzle" where
  "columns_built s =
     s\<lparr>heap := (heap s)
          (9 := col_of s 0, 10 := col_of s 1, 11 := col_of s 2, 12 := col_of s 3,
           13 := col_of s 4, 14 := col_of s 5, 15 := col_of s 6, 16 := col_of s 7,
           17 := col_of s 8),
       fresh := 18\<rparr>"

definition boxes_built :: "puzzle \<Rightarrow> puzzle" where
  "boxes_built s =
     s\<lparr>heap := (heap s)
          (18 := box_of s 0, 19 := box_of s 1, 20 := box_of s 2, 21 := box_of s 3,
           22 := box_of s 4, 23 := box_of s 5, 24 := box_of s 6, 25 := box_of s 7,
           26 := box_of s 8),
       fresh := 27\<rparr>"

definition built :: "int list list \<Rightarrow> puzzle" where
  "built g =
     (let s1 = (load g)\<lparr>rows := rows_dict\<rparr>;
          s3 = (columns_built s1)\<lparr>columns := columns_dict\<rparr>;
          s5 = (boxes_built s3)\<lparr>boxes := boxes_dict\<rparr>
      in s5\<lparr>mask := get_mask s5\<rparr>)"

definition example_grid :: "int list list" where
  "example_grid =
     [[5, 0, 0, 7, 0, 0, 0, 0, 0],
      [0, 0, 0, 0, 0, 0, 0, 0, 0],
      [0, 0, 0, 0, 0, 0, 0, 0, 0],
      [0, 0, 0, 0, 0, 0, 0, 0, 0],
      [0, 0, 0, 0, 0, 0, 0, 0, 0],
      [0, 0, 0, 0, 0, 0, 0, 0, 0],
      [0, 0, 0, 0, 0, 0, 0, 0, 0],
      [0, 0, 0, 0, 0, 0, 0, 0, 0],
      [0, 0, 0, 0, 0, 0, 0, 0, 0]]"

definition frame :: "puzzle \<Rightarrow> puzzle \<Rightarrow> bool" where
  "frame s s' =
     (board s' = board s \<and> rows s' = rows s \<and> columns s' = columns s \<and>
      boxes s' = boxes s \<and> mask s' = mask s \<and> fresh s' = fresh s \<and>
      (\<forall>a. length (heap s' a) = length (heap s a)))"

definition keeps :: "'a step \<Rightarrow> bool" where
  "keeps m = (\<forall>s. frame s (snd (m s)))"

section \<open>Properties\<close>

subsection \<open>Indexing and the layout\<close>

lemma below9_cases:
  assumes "(n::nat) < 9"
  obtains "n = 0" | "n = 1" | "n = 2" | "n = 3" | "n = 4" | "n = 5" | "n = 6" | "n = 7" | "n = 8"
  using assms by linarith

lemma get_boxIndex_range:
  "0 \<le> r \<Longrightarrow> r \<le> 8 \<Longrightarrow> 0 \<le> c \<Longrightarrow> c \<le> 8 \<Longrightarrow> 0 \<le> get_boxIndex r c \<and> get_boxIndex r c \<le> 8"
  unfolding get_boxIndex_def by presburger

lemma getitem_nat: "0 \<le> i \<Longrightarrow> i < int (length xs) \<Longrightarrow> getitem xs i = Inr (xs ! nat i)"
  by (simp add: getitem_def py_index_def)

lemma setitem_nat: "0 \<le> i \<Longrightarrow> i < int (length xs) \<Longrightarrow> setitem xs i v = Inr (xs[nat i := v])"
  by (simp add: setitem_def py_index_def)

lemma list_all_upt: "list_all P [0..<n] = (\<forall>i<n. P i)"
  by (auto simp: list_all_iff)

lemma layout_board: "layout s \<Longrightarrow> board s = [0..<9]"
  by (simp add: layout_def)

lemma layout_dicts:
  assumes "layout s" "0 \<le> i" "i \<le> 8"
  shows "rows s i = Some (nat i)" "columns s i = Some (9 + nat i)" "boxes s i = Some (18 + nat i)"
proof -
  have "nat i < 9" using assms by simp
  moreover have "int (nat i) = i" using assms by simp
  ultimately show "rows s i = Some (nat i)" "columns s i = Some (9 + nat i)"
    "boxes s i = Some (18 + nat i)"
    using assms(1) unfolding layout_def list_all_upt by metis+
qed

lemma layout_length: "layout s \<Longrightarrow> a < 27 \<Longrightarrow> length (heap s a) = 9"
  unfolding layout_def list_all_upt by blast

lemma layout_mask:
  "layout s \<Longrightarrow> length (mask s) = 9"
  "layout s \<Longrightarrow> k < 9 \<Longrightarrow> length (mask s ! k) = 9"
  unfolding layout_def list_all_length by auto

lemma layout_poke: "layout s \<Longrightarrow> layout (poke s a k v)"
  unfolding layout_def list_all_upt poke_def by simp

lemma poke_fields [simp]:
  "board (poke s a k v) = board s" "rows (poke s a k v) = rows s"
  "columns (poke s a k v) = columns s" "boxes (poke s a k v) = boxes s"
  "mask (poke s a k v) = mask s" "fresh (poke s a k v) = fresh s"
  "heap (poke s a k v) = (heap s)(a := (heap s a)[k := v])"
  by (simp_all add: poke_def)

lemma read_mask_layout:
  "layout s \<Longrightarrow> 0 \<le> r \<Longrightarrow> r \<le> 8 \<Longrightarrow> 0 \<le> c \<Longrightarrow> c \<le> 8 \<Longrightarrow>
   read_mask r c s = (Inr (mask s ! nat r ! nat c), s)"
  by (simp add: read_mask_def getitem_nat layout_mask)

lemma read_board_layout:
  "layout s \<Longrightarrow> 0 \<le> r \<Longrightarrow> r \<le> 8 \<Longrightarrow> 0 \<le> c \<Longrightarrow> c \<le> 8 \<Longrightarrow>
   read_board r c s = (Inr (heap s (nat r) ! nat c), s)"
  by (simp add: read_board_def getitem_nat layout_board layout_length)

lemma write_board_layout:
  "layout s \<Longrightarrow> 0 \<le> r \<Longrightarrow> r \<le> 8 \<Longrightarrow> 0 \<le> c \<Longrightarrow> c \<le> 8 \<Longrightarrow>
   write_board r c v s = (Inr (), poke s (nat r) (nat c) v)"
  by (simp add: write_board_def getitem_nat setitem_nat layout_board layout_length poke_def)

lemma write_rows_layout:
  "layout s \<Longrightarrow> 0 \<le> r \<Longrightarrow> r \<le> 8 \<Longrightarrow> 0 \<le> c \<Longrightarrow> c \<le> 8 \<Longrightarrow>
   write_view rows r c v s = (Inr (), poke s (nat r) (nat c) v)"
  by (simp add: write_view_def dict_get_def layout_dicts setitem_nat layout_length poke_def)

lemma write_columns_layout:
  "layout s \<Longrightarrow> 0 \<le> r \<Longrightarrow> r \<le> 8 \<Longrightarrow> 0 \<le> c \<Longrightarrow> c \<le> 8 \<Longrightarrow>
   write_view columns c r v s = (Inr (), poke s (9 + nat c) (nat r) v)"
  by (simp add: write_view_def dict_get_def layout_dicts setitem_nat layout_length poke_def)

lemma write_boxes_layout:
  "layout s \<Longrightarrow> 0 \<le> b \<Longrightarrow> b \<le> 8 \<Longrightarrow> 0 \<le> i \<Longrightarrow> i \<le> 8 \<Longrightarrow>
   write_view boxes b i v s = (Inr (), poke s (18 + nat b) (nat i) v)"
  by (simp add: write_view_def dict_get_def layout_dicts setitem_nat layout_length poke_def)

lemma length_card_distinct: "(length xs \<noteq> card (set xs)) = (\<not> distinct xs)"
  using card_distinct distinct_card by metis

lemma is_valid_layout:
  assumes "layout s" "0 \<le> r" "r \<le> 8" "0 \<le> c" "c \<le> 8"
  shows "is_valid s r c = Inr (valid3 s r c)"
proof -
  have b: "0 \<le> get_boxIndex r c" "get_boxIndex r c \<le> 8"
    using get_boxIndex_range assms by simp_all
  show ?thesis
    using assms b
    by (simp add: is_valid_def dict_get_def layout_dicts length_card_distinct valid3_def
        unit_ok_def Let_def del: set_filter)
qed

lemma val_legal: "(val \<in> set [0, 1, 2, 3, 4, 5, 6, 7, 8, 9::int]) = (0 \<le> val \<and> val \<le> 9)"
  by (simp; presburger)

lemma box_pos_range: "0 \<le> c mod 3 + (r mod 3 * 3) \<and> c mod 3 + (r mod 3 * 3) \<le> (8::int)"
  by presburger

lemma layout_forward: "layout s \<Longrightarrow> layout (forward s r c val)"
  by (simp add: forward_def layout_poke)

lemma layout_rollback: "layout s \<Longrightarrow> layout (rollback s r c val)"
  by (simp add: rollback_def layout_poke)

lemma update_layout:
  assumes "layout s" "0 \<le> r" "r \<le> 8" "0 \<le> c" "c \<le> 8" "0 \<le> val" "val \<le> 9"
  shows "update r c val s =
     (if \<not> mask s ! nat r ! nat c then (Inl FixedValue, s)
      else if valid3 (forward s r c val) r c
        then (Inr (), poke (forward s r c val) (nat r) (nat c) val)
        else (Inl ConflictValue, rollback (forward s r c val) r c (heap s (nat r) ! nat c)))"
proof -
  have b: "0 \<le> get_boxIndex r c" "get_boxIndex r c \<le> 8"
    using get_boxIndex_range assms by simp_all
  have p: "0 \<le> c mod 3 + (r mod 3 * 3)" "c mod 3 + (r mod 3 * 3) \<le> 8"
    using box_pos_range by simp_all
  have v: "val \<in> set [0, 1, 2, 3, 4, 5, 6, 7, 8, 9]"
    using assms val_legal by blast
  show ?thesis
    unfolding update_def and_then_def raise_def Let_def
    using assms b p v
    by (simp add: read_mask_layout read_board_layout write_rows_layout write_columns_layout
        write_boxes_layout write_board_layout layout_poke is_valid_layout forward_def
        rollback_def del: set_simps list.set)
qed

lemma upt9: "[0..<9] = [0, 1, 2, 3, 4, 5, 6, 7, 8]"
  by (simp add: upt_rec)

lemma layout_rows9: "layout s \<Longrightarrow> rows9 s"
  by (simp add: rows9_def layout_board layout_length)

lemma get_column_rows9:
  assumes "rows9 s" "0 \<le> c" "c \<le> 8"
  shows "get_column s c = Inr (col_of s (nat c))"
proof -
  have len: "\<And>k. k < 9 \<Longrightarrow> length (heap s k) = 9" and b: "board s = [0..<9]"
    using assms(1) by (simp_all add: rows9_def)
  have c: "getitem (heap s k) c = Inr (heap s k ! nat c)" if "k < 9" for k
    using that len assms by (simp add: getitem_nat)
  show ?thesis
    unfolding get_column_def range9_def col_of_def b upt9
    by (simp add: getitem_nat c)
qed

lemma take3_drop:
  assumes "length xs = 9" "k \<le> 6"
  shows "take 3 (drop k xs) = [xs ! k, xs ! (k + 1), xs ! (k + 2)]"
proof -
  have "length (take 3 (drop k xs)) = 3" using assms by simp
  moreover have "\<And>i. i < 3 \<Longrightarrow> take 3 (drop k xs) ! i = xs ! (k + i)"
    using assms by simp
  ultimately show ?thesis
    by (intro nth_equalityI) (auto simp: nth_Cons' numeral_3_eq_3 less_Suc_eq)
qed

lemma slice_9:
  assumes "length xs = 9"
  shows "slice xs 0 3 = [xs ! 0, xs ! 1, xs ! 2]"
    "slice xs 3 6 = [xs ! 3, xs ! 4, xs ! 5]"
    "slice xs 6 9 = [xs ! 6, xs ! 7, xs ! 8]"
  using take3_drop[of xs 0] take3_drop[of xs 3] take3_drop[of xs 6] assms
  by (simp_all add: slice_def numeral_2_eq_2)

lemma get_box_rows9:
  assumes "rows9 s" "0 \<le> b" "b \<le> 8"
  shows "get_box s b = Inr (box_of s (nat b))"
proof -
  have len: "\<And>k. k < 9 \<Longrightarrow> length (heap s k) = 9" and brd: "board s = [0..<9]"
    using assms(1) by (simp_all add: rows9_def)
  from assms(2,3) consider "b = 0" | "b = 1" | "b = 2" | "b = 3" | "b = 4" | "b = 5"
    | "b = 6" | "b = 7" | "b = 8" by linarith
  then show ?thesis
    by cases
      (simp_all add: get_box_def box_of_def brd upt9 getitem_def py_index_def slice_9 len)
qed

lemma rows9_load: "grid9 g \<Longrightarrow> rows9 (load g)"
  by (simp add: grid9_def rows9_def load_def list_all_length)

lemma makeDict_rows:
  "board s = [0..<9] \<Longrightarrow>
   makeDict_ref (get_row s) range9 Map.empty =
     Inr rows_dict"
  by (simp add: range9_def get_row_def getitem_def py_index_def upt9 rows_dict_def)

lemma get_column_frame:
  assumes "rows9 s" "board s' = [0..<9]" "\<forall>k<9. heap s' k = heap s k" "0 \<le> c" "c \<le> 8"
  shows "get_column s' c = Inr (col_of s (nat c))"
proof -
  have "rows9 s'" using assms by (simp add: rows9_def)
  moreover have "col_of s' (nat c) = col_of s (nat c)" using assms by (simp add: col_of_def)
  ultimately show ?thesis using assms get_column_rows9 by simp
qed

lemma box_cell_lt:
  assumes "b < 9" "k < (9::nat)"
  shows "b div 3 * 3 + k div 3 < 9 \<and> b mod 3 * 3 + k mod 3 < 9"
proof -
  have "b div 3 \<le> 2" "k div 3 \<le> 2" using assms by simp_all
  moreover have "b mod 3 \<le> 2" "k mod 3 \<le> 2" by simp_all
  ultimately show ?thesis by linarith
qed

lemma get_box_frame:
  assumes "rows9 s" "board s' = [0..<9]" "\<forall>k<9. heap s' k = heap s k" "0 \<le> b" "b \<le> 8"
  shows "get_box s' b = Inr (box_of s (nat b))"
proof -
  have "rows9 s'" using assms by (simp add: rows9_def)
  moreover have "nat b div 3 * 3 + k div 3 < 9" if "k < 9" for k
    using that assms(4,5) box_cell_lt[of "nat b" k] by simp
  then have "box_of s' (nat b) = box_of s (nat b)" using assms(3) by (simp add: box_of_def)
  ultimately show ?thesis using assms get_box_rows9 by simp
qed

lemma makeDict_columns:
  assumes "rows9 s" "fresh s = 9"
  shows "makeDict_new get_column range9 Map.empty s = Inr (columns_dict, columns_built s)"
proof -
  have b: "board s = [0..<9]" using assms(1) by (simp add: rows9_def)
  show ?thesis
    using assms(2) b
    by (simp add: range9_def alloc_def get_column_frame[OF assms(1)] columns_dict_def
        columns_built_def)
qed

lemma makeDict_boxes:
  assumes "rows9 s" "fresh s = 18"
  shows "makeDict_new get_box range9 Map.empty s = Inr (boxes_dict, boxes_built s)"
proof -
  have b: "board s = [0..<9]" using assms(1) by (simp add: rows9_def)
  show ?thesis
    using assms(2) b
    by (simp add: range9_def alloc_def get_box_frame[OF assms(1)] boxes_dict_def
        boxes_built_def)
qed

lemma get_mask_frame:
  assumes "grid9 g" "board s = [0..<9]" "\<forall>k<9. heap s k = g ! k"
  shows "get_mask s = map (map (\<lambda>val. val = 0)) g"
  using assms by (auto simp: get_mask_def grid9_def intro!: nth_equalityI)

lemma heap_columns_built: "a < 9 \<Longrightarrow> heap (columns_built s) a = heap s a"
  by (simp add: columns_built_def)

lemma heap_boxes_built: "a < 18 \<Longrightarrow> heap (boxes_built s) a = heap s a"
  by (simp add: boxes_built_def)

lemma rows9_columns_built: "rows9 s \<Longrightarrow> rows9 (columns_built s)"
  by (simp add: rows9_def columns_built_def)

lemma rows9_dicts:
  "rows9 (s\<lparr>rows := d\<rparr>) = rows9 s" "rows9 (s\<lparr>columns := d\<rparr>) = rows9 s"
  by (simp_all add: rows9_def)

lemma init_built:
  assumes "grid9 g"
  shows "init g = Inr (built g)"
proof -
  let ?s1 = "(load g)\<lparr>rows := rows_dict\<rparr>"
  let ?s3 = "(columns_built ?s1)\<lparr>columns := columns_dict\<rparr>"
  have r0: "rows9 (load g)" using assms by (rule rows9_load)
  have b0: "board (load g) = [0..<9]" using r0 by (simp add: rows9_def)
  have r1: "rows9 ?s1" using r0 by (simp add: rows9_dicts)
  have f1: "fresh ?s1 = 9" using assms by (simp add: load_def grid9_def)
  have r3: "rows9 ?s3" using r1 by (simp add: rows9_dicts rows9_columns_built)
  have f3: "fresh ?s3 = 18" by (simp add: columns_built_def)
  show ?thesis
    unfolding init_def Let_def
    by (simp only: makeDict_rows[OF b0] sum.case makeDict_columns[OF r1 f1] prod.case
        makeDict_boxes[OF r3 f3] built_def Let_def)
qed

lemma built_fields:
  "board (built g) = [0..<length g]" "rows (built g) = rows_dict"
  "columns (built g) = columns_dict" "boxes (built g) = boxes_dict" "fresh (built g) = 27"
  by (simp_all add: built_def Let_def boxes_built_def columns_built_def load_def)

lemma heap_built_rows: "k < 9 \<Longrightarrow> grid9 g \<Longrightarrow> heap (built g) k = g ! k"
  by (simp add: built_def Let_def heap_boxes_built heap_columns_built load_def grid9_def)

lemma rows9_built: "grid9 g \<Longrightarrow> rows9 (built g)"
  by (simp add: rows9_def built_fields heap_built_rows grid9_def list_all_length)

lemma col_of_frame: "\<forall>k<9. heap s' k = heap s k \<Longrightarrow> col_of s' c = col_of s c"
  by (simp add: col_of_def)

lemma box_of_frame:
  assumes "\<forall>k<9. heap s' k = heap s k" "b < 9"
  shows "box_of s' b = box_of s b"
  using assms box_cell_lt by (simp add: box_of_def)

lemma heap_built_columns:
  assumes "i < 9"
  shows "heap (built g) (9 + i) = col_of (built g) i"
proof -
  let ?s1 = "(load g)\<lparr>rows := rows_dict\<rparr>"
  have "col_of (built g) i = col_of ?s1 i"
    by (rule col_of_frame)
      (simp add: built_def Let_def heap_boxes_built heap_columns_built)
  moreover have "heap (built g) (9 + i) = heap (columns_built ?s1) (9 + i)"
    using assms by (simp add: built_def Let_def heap_boxes_built)
  moreover have "heap (columns_built ?s1) (9 + i) = col_of ?s1 i"
  proof -
    from assms have "i < 9" by simp
    then show ?thesis
      by (cases rule: below9_cases) (simp_all add: columns_built_def)
  qed
  ultimately show ?thesis by simp
qed

lemma heap_built_boxes:
  assumes "i < 9"
  shows "heap (built g) (18 + i) = box_of (built g) i"
proof -
  let ?s3 = "(columns_built ((load g)\<lparr>rows := rows_dict\<rparr>))\<lparr>columns := columns_dict\<rparr>"
  have "box_of (built g) i = box_of ?s3 i"
    using assms
    by (intro box_of_frame) (simp_all add: built_def Let_def heap_boxes_built)
  moreover have "heap (built g) (18 + i) = heap (boxes_built ?s3) (18 + i)"
    by (simp add: built_def Let_def)
  moreover have "heap (boxes_built ?s3) (18 + i) = box_of ?s3 i"
  proof -
    from assms have "i < 9" by simp
    then show ?thesis
      by (cases rule: below9_cases) (simp_all add: boxes_built_def)
  qed
  ultimately show ?thesis by simp
qed

lemma mask_built: "grid9 g \<Longrightarrow> mask (built g) = map (map (\<lambda>val. val = 0)) g"
  by (simp add: built_def Let_def)
    (rule get_mask_frame,
      simp_all add: heap_boxes_built heap_columns_built boxes_built_def columns_built_def
        load_def grid9_def)

lemma dict_lookups:
  assumes "i < 9"
  shows "rows_dict (int i) = Some i" "columns_dict (int i) = Some (9 + i)"
    "boxes_dict (int i) = Some (18 + i)"
proof -
  from assms have "i < 9" by simp
  then have "rows_dict (int i) = Some i \<and> columns_dict (int i) = Some (9 + i) \<and>
    boxes_dict (int i) = Some (18 + i)"
    by (cases rule: below9_cases) (simp_all add: rows_dict_def columns_dict_def boxes_dict_def)
  then show "rows_dict (int i) = Some i" "columns_dict (int i) = Some (9 + i)"
    "boxes_dict (int i) = Some (18 + i)" by simp_all
qed

lemma length_col_of: "length (col_of s c) = 9"
  by (simp add: col_of_def)

lemma length_box_of: "length (box_of s b) = 9"
  by (simp add: box_of_def)

lemma length_heap_built:
  assumes "grid9 g" "a < 27"
  shows "length (heap (built g) a) = 9"
proof -
  consider "a < 9" | "9 \<le> a" "a < 18" | "18 \<le> a" by linarith
  then show ?thesis
  proof cases
    case 1
    then show ?thesis using assms by (simp add: heap_built_rows grid9_def list_all_length)
  next
    case 2
    then have "a = 9 + (a - 9)" "a - 9 < 9" by simp_all
    then show ?thesis using heap_built_columns[of "a - 9" g] by (simp add: length_col_of)
  next
    case 3
    then have "a = 18 + (a - 18)" "a - 18 < 9" using assms(2) by simp_all
    then show ?thesis using heap_built_boxes[of "a - 18" g] by (simp add: length_box_of)
  qed
qed

lemma layout_built:
  assumes "grid9 g"
  shows "layout (built g)"
  unfolding layout_def list_all_upt
  using assms
  by (simp add: built_fields dict_lookups mask_built length_heap_built grid9_def
      list_all_length)

lemma grid_built: "grid9 g \<Longrightarrow> grid (built g) = g"
  by (auto simp: grid_def built_fields heap_built_rows grid9_def intro!: nth_equalityI)

lemma grid9_example: "grid9 example_grid"
  by (simp add: grid9_def example_grid_def)

text \<open>
  C4: a value outside 0..9 is refused with \<^verbatim>\<open>InvalidValue\<close> before anything else is
  looked at: whatever the state, the cell and the indices, and nothing is written.
\<close>

theorem update_invalid_value:
  assumes "\<not> (0 \<le> val \<and> val \<le> 9)"
  shows "update r c val s = (Inl InvalidValue, s)"
proof -
  have "val \<notin> set [0, 1, 2, 3, 4, 5, 6, 7, 8, 9]"
    using assms val_legal by blast
  then show ?thesis
    unfolding update_def raise_def by (simp only: not_False_eq_True if_True)
qed

theorem update_invalid_value_witness:
  "update 0 0 10 (built example_grid) = (Inl InvalidValue, built example_grid) \<and>
   update 0 1 (- 1) (built example_grid) = (Inl InvalidValue, built example_grid)"
proof -
  have a: "\<not> (0 \<le> (10::int) \<and> (10::int) \<le> 9)" by simp
  have b: "\<not> (0 \<le> (- 1::int) \<and> (- 1::int) \<le> 9)" by simp
  show ?thesis
    using update_invalid_value[OF a] update_invalid_value[OF b] by blast
qed

lemma index_cases:
  assumes "0 \<le> (n::int)" "n \<le> 8"
  obtains "n = 0" | "n = 1" | "n = 2" | "n = 3" | "n = 4" | "n = 5" | "n = 6" | "n = 7" | "n = 8"
  using assms by linarith

lemma div3_cases:
  assumes "0 \<le> (i::int)" "i \<le> 8"
  obtains "i div 3 = 0" | "i div 3 = 1" | "i div 3 = 2"
  using assms by (rule index_cases) simp_all

lemma box_band_rows:
  assumes "0 \<le> r" "r \<le> 8" "0 \<le> c" "c \<le> 8"
  shows "get_boxIndex r c div 3 * 3 \<le> r \<and> r \<le> get_boxIndex r c div 3 * 3 + 2"
  using assms(3,4)
proof (cases rule: div3_cases)
  case 1 with assms(1,2) show ?thesis by (cases rule: index_cases) (simp_all add: get_boxIndex_def)
next
  case 2 with assms(1,2) show ?thesis by (cases rule: index_cases) (simp_all add: get_boxIndex_def)
next
  case 3 with assms(1,2) show ?thesis by (cases rule: index_cases) (simp_all add: get_boxIndex_def)
qed

lemma box_band_columns:
  assumes "0 \<le> r" "r \<le> 8" "0 \<le> c" "c \<le> 8"
  shows "get_boxIndex r c mod 3 * 3 \<le> c \<and> c \<le> get_boxIndex r c mod 3 * 3 + 2"
  using assms(1,2)
proof (cases rule: div3_cases)
  case 1 with assms(3,4) show ?thesis by (cases rule: index_cases) (simp_all add: get_boxIndex_def)
next
  case 2 with assms(3,4) show ?thesis by (cases rule: index_cases) (simp_all add: get_boxIndex_def)
next
  case 3 with assms(3,4) show ?thesis by (cases rule: index_cases) (simp_all add: get_boxIndex_def)
qed

text \<open>
  C7: for \<open>r\<close>, \<open>c\<close> in 0..8, \<^verbatim>\<open>get_boxIndex\<close> is \<open>c div 3 + r div 3 * 3\<close>, with the
  integer division of the natural numbers; it is a box number 0..8, that of the box
  whose three rows and three columns contain the cell, the boxes being numbered from
  left to right and from top to bottom. In particular the boxes of (0,0), (0,8),
  (8,8) and (4,4) are 0, 2, 8 and 4.
\<close>

theorem get_boxIndex_formula:
  assumes "0 \<le> r" "r \<le> 8" "0 \<le> c" "c \<le> 8"
  shows "get_boxIndex r c = int (nat c div 3 + nat r div 3 * 3)
       \<and> 0 \<le> get_boxIndex r c \<and> get_boxIndex r c \<le> 8
       \<and> get_boxIndex r c div 3 * 3 \<le> r \<and> r \<le> get_boxIndex r c div 3 * 3 + 2
       \<and> get_boxIndex r c mod 3 * 3 \<le> c \<and> c \<le> get_boxIndex r c mod 3 * 3 + 2
       \<and> get_boxIndex 0 0 = 0 \<and> get_boxIndex 0 8 = 2
       \<and> get_boxIndex 8 8 = 8 \<and> get_boxIndex 4 4 = 4"
proof -
  have "get_boxIndex r c = int (nat c div 3 + nat r div 3 * 3)"
    using assms by (simp add: get_boxIndex_def zdiv_int)
  moreover have "get_boxIndex 0 0 = 0 \<and> get_boxIndex 0 8 = 2
       \<and> get_boxIndex 8 8 = 8 \<and> get_boxIndex 4 4 = 4"
    by (simp add: get_boxIndex_def)
  ultimately show ?thesis
    using get_boxIndex_range[OF assms] box_band_rows[OF assms] box_band_columns[OF assms]
    by blast
qed

theorem get_boxIndex_formula_witness:
  "get_boxIndex 5 7 = 5 \<and> get_boxIndex 5 7 div 3 * 3 = 3 \<and> get_boxIndex 5 7 mod 3 * 3 = 6"
  using get_boxIndex_formula[of 5 7] by (simp add: get_boxIndex_def)

lemma frame_refl: "frame s s"
  by (simp add: frame_def)

lemma frame_trans: "frame s s' \<Longrightarrow> frame s' s'' \<Longrightarrow> frame s s''"
  by (simp add: frame_def)

lemma keeps_raise: "keeps (raise e)"
  by (simp add: keeps_def raise_def frame_refl)

lemma keeps_and_then:
  assumes "keeps m" "\<And>x. keeps (f x)"
  shows "keeps (and_then m f)"
proof -
  have "frame s (snd (and_then m f s))" for s
  proof (cases "m s")
    case (Pair res s')
    have a: "frame s s'" using assms(1) Pair unfolding keeps_def by (metis snd_conv)
    show ?thesis
    proof (cases res)
      case (Inl e)
      then show ?thesis using a Pair by (simp add: and_then_def)
    next
      case (Inr x)
      have "frame s' (snd (f x s'))" using assms(2) unfolding keeps_def by blast
      then show ?thesis using a Pair Inr frame_trans by (simp add: and_then_def)
    qed
  qed
  then show ?thesis unfolding keeps_def by blast
qed

lemma keeps_if: "keeps m \<Longrightarrow> keeps n \<Longrightarrow> keeps (if b then m else n)"
  by simp

lemma keeps_read_mask: "keeps (read_mask r c)"
  by (simp add: keeps_def read_mask_def frame_refl)

lemma keeps_read_board: "keeps (read_board r c)"
  by (simp add: keeps_def read_board_def frame_refl)

lemma keeps_is_valid: "keeps (\<lambda>s. (is_valid s r c, s))"
  by (simp add: keeps_def frame_refl)

lemma length_setitem: "setitem xs i v = Inr ys \<Longrightarrow> length ys = length xs"
  by (auto simp add: setitem_def split: sum.splits)

lemma keeps_write_board: "keeps (write_board r c v)"
  unfolding keeps_def write_board_def
  by (auto simp add: frame_def length_setitem split: sum.splits)

lemma keeps_write_rows: "keeps (write_view rows k i v)"
  unfolding keeps_def write_view_def
  by (auto simp add: frame_def length_setitem split: sum.splits)

lemma keeps_write_columns: "keeps (write_view columns k i v)"
  unfolding keeps_def write_view_def
  by (auto simp add: frame_def length_setitem split: sum.splits)

lemma keeps_write_boxes: "keeps (write_view boxes k i v)"
  unfolding keeps_def write_view_def
  by (auto simp add: frame_def length_setitem split: sum.splits)

lemmas keeps_intros =
  keeps_raise keeps_read_mask keeps_read_board keeps_is_valid keeps_write_board
  keeps_write_rows keeps_write_columns keeps_write_boxes

lemma keeps_update: "keeps (update r c val)"
  unfolding update_def Let_def
  by (intro keeps_if keeps_and_then allI keeps_intros)

lemma frame_update: "frame s (snd (update r c val s))"
  using keeps_update unfolding keeps_def by blast

lemma frame_run: "frame s (run s calls)"
proof (induction calls arbitrary: s)
  case Nil
  show ?case by (simp add: frame_refl)
next
  case (Cons call calls)
  obtain r c val where "call = (r, c, val)" by (cases call) auto
  then show ?case using Cons[of "snd (update r c val s)"] frame_update[of s r c val] frame_trans
    by simp
qed

lemma frame_layout: "frame s s' \<Longrightarrow> layout s \<Longrightarrow> layout s'"
  unfolding frame_def layout_def by simp

lemma layout_run: "layout s \<Longrightarrow> layout (run s calls)"
  using frame_run frame_layout by blast

lemma mask_run: "mask (run s calls) = mask s"
  using frame_run[of s calls] by (simp add: frame_def)

lemma mask_built_cell:
  assumes "grid9 g" "0 \<le> r" "r \<le> 8" "0 \<le> c" "c \<le> 8"
  shows "mask (built g) ! nat r ! nat c = (g ! nat r ! nat c = 0)"
proof -
  have "nat r < length g" using assms by (simp add: grid9_def)
  moreover have "nat c < length (g ! nat r)"
    using assms calculation by (simp add: grid9_def list_all_length)
  ultimately show ?thesis using assms(1) by (simp add: mask_built)
qed

text \<open>
  C5: a cell whose value in the initial grid is not zero is fixed: in the state the
  constructor returns and in every state that any sequence of calls of \<^verbatim>\<open>update\<close>
  leads to, \<^verbatim>\<open>update(r, c, val)\<close> with \<open>val\<close> in 0..9 raises \<^verbatim>\<open>FixedValue\<close>, whatever
  \<open>val\<close> is, and leaves the whole state (grid and views) as it was.
\<close>

theorem update_fixed_cell:
  assumes "grid9 g" "init g = Inr s0"
    and "0 \<le> r" "r \<le> 8" "0 \<le> c" "c \<le> 8" "g ! nat r ! nat c \<noteq> 0"
    and "0 \<le> val" "val \<le> 9"
  shows "mask (run s0 calls) ! nat r ! nat c = False \<and>
         update r c val (run s0 calls) = (Inl FixedValue, run s0 calls)"
proof -
  have s0: "s0 = built g" using assms(1,2) by (simp add: init_built)
  have l: "layout (run s0 calls)" unfolding s0 using assms(1) by (intro layout_run layout_built)
  have m: "mask (run s0 calls) ! nat r ! nat c = False"
    unfolding s0 mask_run using assms by (simp add: mask_built_cell)
  show ?thesis using update_layout[OF l assms(3-6) assms(8,9)] m by simp
qed

theorem update_fixed_cell_witness:
  "update 0 0 3 (run (built example_grid) [(0, 1, 5)])
     = (Inl FixedValue, run (built example_grid) [(0, 1, 5)]) \<and>
   update 0 3 7 (built example_grid) = (Inl FixedValue, built example_grid)"
  using update_fixed_cell[OF grid9_example init_built[OF grid9_example], of 0 0 3 "[(0, 1, 5)]"]
    update_fixed_cell[OF grid9_example init_built[OF grid9_example], of 0 3 7 "[]"]
  by (simp add: example_grid_def)

end
